theory Spec2Isabelle
  imports Main "HOL-Library.Sublist" "HOL-Library.Log_Nat"
begin

section \<open>Python strings\<close>

text \<open>
  A Python \<open>str\<close> is a sequence of code points. The model is \<open>string\<close>, a list of
  \<open>char\<close>, each standing for the code point of the same number (0 to 255); \<open>length\<close>
  is Python's \<open>len\<close> and \<open>take n\<close> is the slice \<open>[:n]\<close>.

  \<open>isspace\<close> is \<open>str.isspace\<close> on one character: the code points below 256 that
  CPython classifies as whitespace (TAB, LF, VT, FF, CR, FS, GS, RS, US, SPACE, NEL, NBSP).
\<close>

definition isspace :: "char \<Rightarrow> bool" where
  "isspace c = (of_char c \<in> {9, 10, 11, 12, 13, 28, 29, 30, 31, 32, 133, 160 :: nat})"

text \<open>
  \<open>str.split()\<close> with no argument, as CPython's \<open>split_whitespace\<close> runs it: skip the
  whitespace, stop at the end of the string, otherwise cut the maximal run of
  non-whitespace characters and go on behind it.
\<close>

function str_split :: "string \<Rightarrow> string list" where
  "str_split s =
     (case dropWhile isspace s of
        [] \<Rightarrow> []
      | c # cs \<Rightarrow> (c # takeWhile (\<lambda>x. \<not> isspace x) cs)
                 # str_split (dropWhile (\<lambda>x. \<not> isspace x) cs))"
  by pat_completeness auto

termination
proof (relation "measure length")
  show "wf (measure length)" by simp
next
  fix s :: string and c cs
  assume eq: "dropWhile isspace s = c # cs"
  have "length (dropWhile (\<lambda>x. \<not> isspace x) cs) \<le> length cs"
    by (rule length_dropWhile_le)
  also have "length cs < length (dropWhile isspace s)"
    by (simp add: eq)
  also have "length (dropWhile isspace s) \<le> length s"
    by (rule length_dropWhile_le)
  finally show "(dropWhile (\<lambda>x. \<not> isspace x) cs, s) \<in> measure length"
    by simp
qed

declare str_split.simps [simp del]

text \<open>\<open>sep.join(ws)\<close>.\<close>

fun str_join :: "string \<Rightarrow> string list \<Rightarrow> string" where
  "str_join sep [] = []"
| "str_join sep [w] = w"
| "str_join sep (w # v # ws) = w @ sep @ str_join sep (v # ws)"

text \<open>
  \<open>str.upper()\<close>: the letters a to z go to A to Z. The other code points are left as
  they are; Python maps some code points from 128 on to other non-ASCII letters (and
  the sharp s to SS), none of which yields a letter of the word POSITIVE, the only
  string the program compares an upper-cased string with.
\<close>

definition upper_char :: "char \<Rightarrow> char" where
  "upper_char c =
     (let n = of_char c :: nat in if 97 \<le> n \<and> n \<le> 122 then char_of (n - 32) else c)"

definition str_upper :: "string \<Rightarrow> string" where
  "str_upper s = map upper_char s"

text \<open>
  The specification's words, for comparison with \<open>str_upper\<close>: two strings compare equal
  case-insensitively when they have the same length and, position by position, hold
  the same character or the two cases of one letter.
\<close>

definition is_upper_letter :: "char \<Rightarrow> bool" where
  "is_upper_letter c = (65 \<le> (of_char c :: nat) \<and> (of_char c :: nat) \<le> 90)"

definition same_char_ignoring_case :: "char \<Rightarrow> char \<Rightarrow> bool" where
  "same_char_ignoring_case a b =
     (a = b
      \<or> (is_upper_letter a \<and> (of_char b :: nat) = of_char a + 32)
      \<or> (is_upper_letter b \<and> (of_char a :: nat) = of_char b + 32))"

definition equal_ignoring_case :: "string \<Rightarrow> string \<Rightarrow> bool" where
  "equal_ignoring_case s t = list_all2 same_char_ignoring_case s t"

section \<open>Python floats\<close>

text \<open>
  A Python \<open>float\<close> is an IEEE 754 binary64 number: a sign bit (\<open>True\<close> is minus) with
  a magnitude, or an infinity, or a NaN. The magnitude of a finite number is kept as
  the rational it denotes, so \<open>Finite True 0\<close> is \<open>-0.0\<close>.
\<close>

datatype pyfloat = Finite bool rat | Infinity bool | NaN

definition round_half_even :: "rat \<Rightarrow> int" where
  "round_half_even x =
     (let f = \<lfloor>x\<rfloor>; d = x - of_int f
      in if d < 1 / 2 then f else if 1 / 2 < d then f + 1 else if even f then f else f + 1)"

text \<open>\<open>ilog2 q\<close> is the integer \<open>e\<close> with \<open>2 ^ e \<le> q < 2 ^ (e + 1)\<close>, for \<open>q > 0\<close>.\<close>

definition ilog2 :: "rat \<Rightarrow> int" where
  "ilog2 q = (if 1 \<le> q then bitlen \<lfloor>q\<rfloor> - 1 else - bitlen (\<lceil>1 / q\<rceil> - 1))"

text \<open>
  The binary64 number nearest to a magnitude \<open>q > 0\<close>, were the exponent range
  unbounded above: 53 significant bits, the least exponent of a unit in the last
  place \<open>-1074\<close> (subnormal numbers), ties to the even significand.
\<close>

definition nearest_binary64 :: "rat \<Rightarrow> rat" where
  "nearest_binary64 q =
     (let p = max (ilog2 q - 52) (- 1074)
      in of_int (round_half_even (q / 2 powi p)) * 2 powi p)"

text \<open>Rounding a magnitude \<open>q \<ge> 0\<close> to a float of sign \<open>s\<close>: infinity from \<open>2 ^ 1024\<close> on.\<close>

definition round_double :: "bool \<Rightarrow> rat \<Rightarrow> pyfloat" where
  "round_double s q =
     (if q = 0 then Finite s 0
      else let r = nearest_binary64 q
           in if 2 ^ 1024 \<le> r then Infinity s else Finite s r)"

fun fneg :: "pyfloat \<Rightarrow> pyfloat" where
  "fneg (Finite s m) = Finite (\<not> s) m"
| "fneg (Infinity s) = Infinity (\<not> s)"
| "fneg NaN = NaN"

fun fmul :: "pyfloat \<Rightarrow> pyfloat \<Rightarrow> pyfloat" where
  "fmul (Finite s a) (Finite t b) = round_double (s \<noteq> t) (a * b)"
| "fmul (Finite s a) (Infinity t) = (if a = 0 then NaN else Infinity (s \<noteq> t))"
| "fmul (Infinity s) (Finite t b) = (if b = 0 then NaN else Infinity (s \<noteq> t))"
| "fmul (Infinity s) (Infinity t) = Infinity (s \<noteq> t)"
| "fmul NaN y = NaN"
| "fmul x NaN = NaN"

text \<open>
  \<open>round(x, ndigits)\<close> on a float, for \<open>ndigits \<ge> 0\<close>: CPython rounds the exact value
  to \<open>ndigits\<close> decimal places, ties to even, and reads the decimal back as the nearest
  float; infinities and NaN round to themselves.
\<close>

fun float_round :: "pyfloat \<Rightarrow> nat \<Rightarrow> pyfloat" where
  "float_round (Finite s m) nd =
     round_double s (of_int (round_half_even (m * 10 ^ nd)) / 10 ^ nd)"
| "float_round (Infinity s) nd = Infinity s"
| "float_round NaN nd = NaN"

text \<open>The value of a finite float, for comparisons.\<close>

fun float_value :: "pyfloat \<Rightarrow> rat option" where
  "float_value (Finite s m) = Some (if s then - m else m)"
| "float_value (Infinity s) = None"
| "float_value NaN = None"

section \<open>Python values and exceptions\<close>

text \<open>
  \<open>exn\<close> stands for the instances of Python's \<open>Exception\<close>, the ones an
  \<open>except Exception\<close> clause catches; each carries its message \<open>str(e)\<close>.
\<close>

datatype exn =
    IndexError string
  | KeyError string
  | TypeError string
  | AttributeError string
  | OverflowError string
  | LibraryError string

fun str_exn :: "exn \<Rightarrow> string" where
  "str_exn (IndexError m) = m"
| "str_exn (KeyError m) = m"
| "str_exn (TypeError m) = m"
| "str_exn (AttributeError m) = m"
| "str_exn (OverflowError m) = m"
| "str_exn (LibraryError m) = m"

text \<open>The values the dictionaries of the two pipelines hold: strings and numbers.\<close>

datatype pyval = PStr string | PInt int | PFloat pyfloat

text \<open>\<open>xs[0]\<close> and \<open>d[k]\<close>.\<close>

definition index0 :: "'a list \<Rightarrow> exn + 'a" where
  "index0 xs = (case xs of [] \<Rightarrow> Inl (IndexError ''list index out of range'') | x # _ \<Rightarrow> Inr x)"

definition getitem :: "(string \<rightharpoonup> 'v) \<Rightarrow> string \<Rightarrow> exn + 'v" where
  "getitem d k = (case d k of None \<Rightarrow> Inl (KeyError (CHR 0x27 # k @ [CHR 0x27])) | Some v \<Rightarrow> Inr v)"

text \<open>
  The operators the program applies to such values. \<open>x * n\<close> with an \<open>int\<close> literal
  \<open>n\<close> on the right: a float is multiplied by the float of \<open>n\<close>, an \<open>int\<close> by
  \<open>n\<close>, and a string is repeated. \<open>-x\<close> and \<open>round(x, ndigits)\<close> raise \<open>TypeError\<close>
  on a string, \<open>x.upper()\<close> raises \<open>AttributeError\<close> on a number.
\<close>

definition float_of_int :: "int \<Rightarrow> exn + pyfloat" where
  "float_of_int n =
     (case round_double (n < 0) (of_int \<bar>n\<bar>) of
        Infinity s \<Rightarrow> Inl (OverflowError ''int too large to convert to float'')
      | f \<Rightarrow> Inr f)"

fun py_mul_int :: "pyval \<Rightarrow> int \<Rightarrow> exn + pyval" where
  "py_mul_int (PFloat x) n =
     (case float_of_int n of Inl e \<Rightarrow> Inl e | Inr y \<Rightarrow> Inr (PFloat (fmul x y)))"
| "py_mul_int (PInt a) n = Inr (PInt (a * n))"
| "py_mul_int (PStr s) n = Inr (PStr (concat (replicate (nat n) s)))"

fun py_neg :: "pyval \<Rightarrow> exn + pyval" where
  "py_neg (PFloat x) = Inr (PFloat (fneg x))"
| "py_neg (PInt a) = Inr (PInt (- a))"
| "py_neg (PStr s) = Inl (TypeError ''bad operand type for unary -'')"

fun py_round :: "pyval \<Rightarrow> nat \<Rightarrow> exn + pyval" where
  "py_round (PFloat x) nd = Inr (PFloat (float_round x nd))"
| "py_round (PInt a) nd = Inr (PInt a)"
| "py_round (PStr s) nd = Inl (TypeError ''type str doesn't define __round__ method'')"

fun py_upper :: "pyval \<Rightarrow> exn + string" where
  "py_upper (PStr s) = Inr (str_upper s)"
| "py_upper (PInt a) = Inl (AttributeError ''object has no attribute upper'')"
| "py_upper (PFloat x) = Inl (AttributeError ''object has no attribute upper'')"

text \<open>The value of a number, for comparisons; a string, an infinity and a NaN have none.\<close>

fun num_value :: "pyval \<Rightarrow> rat option" where
  "num_value (PInt a) = Some (of_int a)"
| "num_value (PFloat x) = float_value x"
| "num_value (PStr s) = None"

section \<open>The world outside the program\<close>

text \<open>
  What the program shows through Streamlit is a list of events, in the order of the
  calls. Every call of one of the three libraries is recorded with its arguments.
  \<open>rng\<close> is the state of the random generator a sampling decoder would draw from.
\<close>

record result_row =
  Title :: string
  URL :: string
  Summary :: string
  Sentiment :: "pyval option"
  Importance_Score :: "pyval option"

datatype ui_event =
    StTitle string
  | StHeader string
  | StSubheader string
  | StWrite "pyval option list"
  | StError string
  | StSuccess string
  | StMarkdown string
  | StTable "result_row list"

datatype call =
    Download string
  | Summarize string nat nat bool
  | Classify string

record world =
  ui :: "ui_event list"
  calls :: "call list"
  rng :: nat

definition show_event :: "ui_event \<Rightarrow> world \<Rightarrow> world" where
  "show_event ev w = w\<lparr>ui := ui w @ [ev]\<rparr>"

definition record_call :: "call \<Rightarrow> world \<Rightarrow> world" where
  "record_call c w = w\<lparr>calls := calls w @ [c]\<rparr>"

text \<open>
  The three libraries are parameters of the program:
  \<^item> \<open>extractor url\<close> is what \<open>Article(url)\<close>, \<open>download()\<close>, \<open>parse()\<close> and reading
    \<open>article.text\<close> come to: the text, or the exception one of them raises;
  \<^item> \<open>summarizer g text max_length min_length do_sample\<close> is the summarization pipeline
    called on generator state \<open>g\<close>: a list of dictionaries or an exception, and the
    generator state it leaves;
  \<^item> \<open>sentiment_analyzer text\<close> is the sentiment pipeline: a list of dictionaries or an
    exception.
\<close>

record env =
  extractor :: "string \<Rightarrow> exn + string"
  summarizer :: "nat \<Rightarrow> string \<Rightarrow> nat \<Rightarrow> nat \<Rightarrow> bool \<Rightarrow> (exn + (string \<rightharpoonup> string) list) \<times> nat"
  sentiment_analyzer :: "string \<Rightarrow> exn + (string \<rightharpoonup> pyval) list"

section \<open>The program\<close>

text \<open>
  A function of the program takes the world and returns \<open>Inl\<close> the exception that
  leaves it or \<open>Inr\<close> its value, with the world it leaves.
\<close>

text \<open>
  Inside a \<open>try\<close> block the statements run in sequence until one raises:
  \<open>and_then r f\<close> hands the value of \<open>r\<close> to \<open>f\<close>, or is the exception of \<open>r\<close>.
\<close>

definition and_then :: "exn + 'a \<Rightarrow> ('a \<Rightarrow> exn + 'b) \<Rightarrow> exn + 'b" where
  "and_then r f = (case r of Inl e \<Rightarrow> Inl e | Inr x \<Rightarrow> f x)"

definition extract_article_text :: "env \<Rightarrow> string \<Rightarrow> world \<Rightarrow> (exn + string option) \<times> world" where
  "extract_article_text env url w =
     (let w1 = record_call (Download url) w
      in case extractor env url of
           Inr text \<Rightarrow> (Inr (Some text), w1)
         | Inl e \<Rightarrow> (Inr None, show_event (StError (''Error fetching article: '' @ str_exn e)) w1))"

definition generate_summary :: "env \<Rightarrow> string \<Rightarrow> world \<Rightarrow> (exn + string) \<times> world" where
  "generate_summary env text0 w =
     (let max_input = 1024;
          words = str_split text0;
          text = (if length words > max_input then str_join '' '' (take max_input words) else text0);
          (out, g) = summarizer env (rng w) text 130 30 False;
          w1 = (record_call (Summarize text 130 30 False) w)\<lparr>rng := g\<rparr>
      in case and_then out (\<lambda>summary_list.
              and_then (index0 summary_list) (\<lambda>d.
              getitem d ''summary_text'')) of
           Inr summary \<Rightarrow> (Inr summary, w1)
         | Inl e \<Rightarrow>
             (Inr ''Summary generation failed.'',
              show_event (StError (''Error in summarization: '' @ str_exn e)) w1))"

text \<open>The body of the \<open>try\<close> of \<open>analyze_sentiment\<close>, from the result of the pipeline on.\<close>

definition importance_of :: "(string \<rightharpoonup> pyval) list \<Rightarrow> exn + (pyval \<times> pyval)" where
  "importance_of out =
     and_then (index0 out) (\<lambda>sentiment.
     and_then (getitem sentiment ''label'') (\<lambda>label.
     and_then (getitem sentiment ''score'') (\<lambda>score.
     and_then (py_upper label) (\<lambda>u.
     and_then (if u = ''POSITIVE'' then py_mul_int score 100
               else and_then (py_neg score) (\<lambda>m. py_mul_int m 100)) (\<lambda>importance_score.
     and_then (py_round importance_score 2) (\<lambda>r.
     Inr (label, r)))))))"

definition analyze_sentiment :: "env \<Rightarrow> string \<Rightarrow> world \<Rightarrow> (exn + (pyval \<times> pyval)) \<times> world" where
  "analyze_sentiment env text w =
     (let w1 = record_call (Classify (take 512 text)) w
      in case and_then (sentiment_analyzer env (take 512 text)) importance_of of
           Inr r \<Rightarrow> (Inr r, w1)
         | Inl e \<Rightarrow>
             (Inr (PStr ''N/A'', PInt 0),
              show_event (StError (''Error in sentiment analysis: '' @ str_exn e)) w1))"

text \<open>
  \<open>analyze_article\<close> returns a triple; \<open>None\<close> is Python's \<open>None\<close>. An exception of a
  callee would leave \<open>analyze_article\<close> too.
\<close>

definition analyze_article ::
  "env \<Rightarrow> string \<Rightarrow> world \<Rightarrow> (exn + (string option \<times> pyval option \<times> pyval option)) \<times> world" where
  "analyze_article env url w =
     (case extract_article_text env url w of
        (Inl e, w1) \<Rightarrow> (Inl e, w1)
      | (Inr article_text, w1) \<Rightarrow>
          (case article_text of
             None \<Rightarrow> (Inr (None, None, None), w1)
           | Some t \<Rightarrow>
               if t = [] \<or> length t < 100 then (Inr (None, None, None), w1)
               else
                 (case generate_summary env t w1 of
                    (Inl e, w2) \<Rightarrow> (Inl e, w2)
                  | (Inr summary, w2) \<Rightarrow>
                      (case analyze_sentiment env t w2 of
                         (Inl e, w3) \<Rightarrow> (Inl e, w3)
                       | (Inr (sentiment_label, importance_score), w3) \<Rightarrow>
                           (Inr (Some summary, Some sentiment_label, Some importance_score), w3)))))"

text \<open>
  The dictionary \<open>preloaded_articles\<close>, as the list of its items in insertion order.
\<close>

definition preloaded_articles :: "(string \<times> string) list" where
  "preloaded_articles =
     [(''BBC Article 1'', ''https://www.bbc.com/news/world-us-canada-66801985''),
      (''BBC Article 2'', ''https://www.bbc.com/news/technology-66804779''),
      (''BBC Article 3'', ''https://www.bbc.com/news/science-environment-66799975'')]"

text \<open>
  The \<open>for\<close> loop of the branch "Preloaded Articles" over the items still to visit, with
  the list \<open>results\<close> built so far.
\<close>

fun preloaded_loop ::
  "env \<Rightarrow> (string \<times> string) list \<Rightarrow> result_row list \<Rightarrow> world \<Rightarrow> (exn + result_row list) \<times> world" where
  "preloaded_loop env [] results w = (Inr results, w)"
| "preloaded_loop env ((title, url) # rest) results w =
     (let w1 = show_event (StSubheader title) w;
          w2 = show_event (StWrite [Some (PStr (''[Read the article]('' @ url @ '')''))]) w1
      in case analyze_article env url w2 of
           (Inl e, w3) \<Rightarrow> (Inl e, w3)
         | (Inr (summary, sentiment_label, importance_score), w3) \<Rightarrow>
             (case summary of
                None \<Rightarrow>
                  preloaded_loop env rest results
                    (show_event
                       (StError ''Failed to extract article text or article is too short for analysis.'')
                       w3)
              | Some s \<Rightarrow>
                  (let w4 = show_event (StWrite [Some (PStr ''**Summary:**''), Some (PStr s)]) w3;
                       w5 = show_event (StWrite [Some (PStr ''**Sentiment:**''), sentiment_label]) w4;
                       w6 = show_event (StWrite [Some (PStr ''**Importance Score:**''), importance_score]) w5;
                       row = \<lparr>Title = title, URL = url, Summary = s,
                              Sentiment = sentiment_label, Importance_Score = importance_score\<rparr>
                   in preloaded_loop env rest (results @ [row]) (show_event (StMarkdown ''---'') w6))))"

definition preloaded_mode :: "env \<Rightarrow> (string \<times> string) list \<Rightarrow> world \<Rightarrow> (exn + unit) \<times> world" where
  "preloaded_mode env articles w =
     (case preloaded_loop env articles [] (show_event (StHeader ''Preloaded BBC Articles Analysis'') w) of
        (Inl e, w1) \<Rightarrow> (Inl e, w1)
      | (Inr results, w1) \<Rightarrow>
          if results \<noteq> []
          then (Inr (), show_event (StTable results) (show_event (StSubheader ''Tabulated Results'') w1))
          else (Inr (), w1))"

definition custom_mode :: "env \<Rightarrow> string \<Rightarrow> bool \<Rightarrow> world \<Rightarrow> (exn + unit) \<times> world" where
  "custom_mode env custom_url button w =
     (let w1 = show_event (StHeader ''Custom BBC Article Analysis'') w
      in if button \<and> custom_url \<noteq> [] then
           (case analyze_article env custom_url w1 of
              (Inl e, w2) \<Rightarrow> (Inl e, w2)
            | (Inr (summary, sentiment_label, importance_score), w2) \<Rightarrow>
                (case summary of
                   None \<Rightarrow>
                     (Inr (),
                      show_event
                        (StError ''Failed to extract article text or the article text is too short for analysis.'')
                        w2)
                 | Some s \<Rightarrow>
                     (Inr (),
                      show_event (StSuccess ''Analysis complete!'')
                        (show_event (StWrite [Some (PStr ''**Importance Score:**''), importance_score])
                          (show_event (StWrite [Some (PStr ''**Sentiment:**''), sentiment_label])
                            (show_event (StWrite [Some (PStr ''**Summary:**''), Some (PStr s)]) w2))))))
         else (Inr (), w1))"

text \<open>
  The script below the function definitions: \<open>analysis_mode\<close> is the choice in the
  sidebar, \<open>custom_url\<close> the content of the text field and \<open>button\<close> whether the button
  was pressed.
\<close>

definition script :: "env \<Rightarrow> string \<Rightarrow> string \<Rightarrow> bool \<Rightarrow> world \<Rightarrow> (exn + unit) \<times> world" where
  "script env analysis_mode custom_url button w =
     (let w1 = show_event (StTitle ''BBC News Article Analysis'') w;
          w2 = show_event
                 (StWrite [Some (PStr ''This app extracts BBC article text, generates a brief summary, and calculates an importance score based on the article's sentiment (positive/negative) using text mining algorithms.'')])
                 w1
      in if analysis_mode = ''Preloaded Articles'' then preloaded_mode env preloaded_articles w2
         else if analysis_mode = ''Custom URL'' then custom_mode env custom_url button w2
         else (Inr (), w2))"

section \<open>Reading the batch mode\<close>

text \<open>
  An article, a pair of title and URL, passes the gate when the extraction of its URL
  succeeds with a text of at least 100 characters.
\<close>

definition passes_gate :: "env \<Rightarrow> string \<times> string \<Rightarrow> bool" where
  "passes_gate env article =
     (case extractor env (snd article) of Inr t \<Rightarrow> 100 \<le> length t | Inl e \<Rightarrow> False)"

text \<open>The tables on the screen, each as the list of its rows, in the order shown.\<close>

fun tables :: "ui_event list \<Rightarrow> result_row list list" where
  "tables [] = []"
| "tables (StTable rows # evs) = rows # tables evs"
| "tables (ev # evs) = tables evs"

section \<open>What is assumed of the sentiment model\<close>

text \<open>
  The sentiment model is a binary classifier: a label it gives is POSITIVE or NEGATIVE,
  and a score it gives is a float in the interval from 0 to 1 (the sign bit may only be
  set on zero). \<open>sentiment_model_contract\<close> says so of every dictionary of every result.
\<close>

definition confidence_in_unit :: "pyval \<Rightarrow> bool" where
  "confidence_in_unit v =
     (case v of PFloat (Finite s m) \<Rightarrow> 0 \<le> m \<and> m \<le> 1 \<and> (s \<longrightarrow> m = 0) | _ \<Rightarrow> False)"

definition sentiment_contract :: "(string \<rightharpoonup> pyval) \<Rightarrow> bool" where
  "sentiment_contract d =
     ((case d ''label'' of
         None \<Rightarrow> True
       | Some l \<Rightarrow> l = PStr ''POSITIVE'' \<or> l = PStr ''NEGATIVE'')
      \<and> (case d ''score'' of None \<Rightarrow> True | Some c \<Rightarrow> confidence_in_unit c))"

definition sentiment_model_contract :: "env \<Rightarrow> bool" where
  "sentiment_model_contract env =
     (\<forall>t out. sentiment_analyzer env t = Inr out \<longrightarrow> list_all sentiment_contract out)"

section \<open>A concrete world\<close>

text \<open>
  Stand-ins for the three libraries, on which the theorems below are run. Of the
  preloaded URLs the second yields a text of 120 characters, the first a text that
  is too short, the third does not download. The summarizer refuses a text shorter
  than \<open>min_length\<close> and otherwise returns the head of the text; when sampling it
  returns a string that depends on the generator. The sentiment pipeline refuses the
  empty text and otherwise answers (POSITIVE, 0.87) or (NEGATIVE, 0.42), the two
  scores being the floats that the literals \<open>0.87\<close> and \<open>0.42\<close> denote.
\<close>

definition start_world :: world where
  "start_world = \<lparr>ui = [], calls = [], rng = 7\<rparr>"

definition demo_env :: env where
  "demo_env =
     \<lparr>extractor = (\<lambda>url.
        if url = ''https://www.bbc.com/news/technology-66804779'' then Inr (replicate 120 (CHR ''x''))
        else if url = ''https://www.bbc.com/news/world-us-canada-66801985'' then Inr ''Too short.''
        else Inl (LibraryError ''Article download failed'')),
      summarizer = (\<lambda>g text max_length min_length do_sample.
        if do_sample then (Inr [[''summary_text'' \<mapsto> replicate g (CHR ''a'')]], Suc g)
        else if length text < min_length then (Inl (LibraryError ''index out of range in self''), g)
        else (Inr [[''summary_text'' \<mapsto> take max_length text]], g)),
      sentiment_analyzer = (\<lambda>text.
        if text = [] then Inl (LibraryError ''empty input'')
        else if hd text = CHR ''x''
        then Inr [[''label'' \<mapsto> PStr ''POSITIVE'',
                   ''score'' \<mapsto> PFloat (Finite False (7836263351624663 / 9007199254740992))]]
        else Inr [[''label'' \<mapsto> PStr ''NEGATIVE'',
                   ''score'' \<mapsto> PFloat (Finite False (7566047373982433 / 18014398509481984))]])\<rparr>"

text \<open>A world later in a session: something is on the screen, the generator has moved.\<close>

definition later_world :: world where
  "later_world =
     \<lparr>ui = [StTitle ''BBC News Article Analysis''], calls = [Download ''https://www.bbc.com/news''], rng = 2024\<rparr>"

section \<open>Splitting and joining\<close>









section \<open>What the functions hand to the libraries\<close>

lemma generate_summary_calls:
  "calls (snd (generate_summary env text w)) =
     calls w @ [Summarize (if 1024 < length (str_split text)
                           then str_join '' '' (take 1024 (str_split text)) else text) 130 30 False]"
  by (simp add: generate_summary_def Let_def record_call_def show_event_def
      split: prod.splits sum.splits)


section \<open>Degraded results\<close>

text \<open>
  C6: whatever text \<open>generate_summary\<close> submits to the summarization model, if the model
  raises on it, \<open>generate_summary\<close> returns the string "Summary generation failed." as
  its value; the exception does not leave it.
\<close>

theorem generate_summary_failure:
  assumes "calls (snd (generate_summary env text w)) = calls w @ [Summarize t mx mn ds]"
    and "fst (summarizer env (rng w) t mx mn ds) = Inl e"
  shows "fst (generate_summary env text w) = Inr ''Summary generation failed.''"
proof -
  define t' where "t' = (if 1024 < length (str_split text)
                           then str_join '' '' (take 1024 (str_split text)) else text)"
  from assms(1) have "t = t'" "mx = 130" "mn = 30" "ds = False"
    by (simp_all add: generate_summary_calls t'_def)
  with assms(2) obtain g where "summarizer env (rng w) t' 130 30 False = (Inl e, g)"
    by (cases "summarizer env (rng w) t' 130 30 False") auto
  then show ?thesis
    by (simp add: generate_summary_def Let_def and_then_def t'_def)
qed

theorem generate_summary_failure_witness:
  "calls (snd (generate_summary demo_env ''Too short.'' start_world))
     = calls start_world @ [Summarize ''Too short.'' 130 30 False]
   \<and> fst (summarizer demo_env (rng start_world) ''Too short.'' 130 30 False)
     = Inl (LibraryError ''index out of range in self'')
   \<and> fst (generate_summary demo_env ''Too short.'' start_world) = Inr ''Summary generation failed.''"
proof -
  have tokens: "str_split ''Too short.'' = [''Too'', ''short.'']"
    by code_simp
  have c: "calls (snd (generate_summary demo_env ''Too short.'' start_world))
      = calls start_world @ [Summarize ''Too short.'' 130 30 False]"
    by (simp add: generate_summary_calls tokens)
  have r: "fst (summarizer demo_env (rng start_world) ''Too short.'' 130 30 False)
      = Inl (LibraryError ''index out of range in self'')"
    by (simp add: demo_env_def)
  from c r generate_summary_failure [OF c r] show ?thesis by simp
qed

text \<open>
  C7: when the sentiment model raises on the text submitted to it, \<open>analyze_sentiment\<close>
  returns the pair ("N/A", 0) as its value; the exception does not leave it.
\<close>

theorem analyze_sentiment_failure:
  assumes "sentiment_analyzer env (take 512 text) = Inl e"
  shows "fst (analyze_sentiment env text w) = Inr (PStr ''N/A'', PInt 0)"
  using assms by (simp add: analyze_sentiment_def Let_def and_then_def)

theorem analyze_sentiment_failure_witness:
  "sentiment_analyzer demo_env (take 512 '''') = Inl (LibraryError ''empty input'')
   \<and> fst (analyze_sentiment demo_env '''' start_world) = Inr (PStr ''N/A'', PInt 0)"
  using analyze_sentiment_failure [of demo_env "''''" "LibraryError ''empty input''" start_world]
  by (simp add: demo_env_def)

section \<open>Upper case and comparison ignoring case\<close>

lemma of_char_less_256: "(of_char c :: nat) < 256"
proof -
  have "(of_char c :: nat) mod 256 = of_char c" by (rule of_char_mod_256)
  moreover have "(of_char c :: nat) mod 256 < 256" by simp
  ultimately show ?thesis by simp
qed

lemma upper_char_eq_iff:
  assumes "is_upper_letter d"
  shows "upper_char c = d \<longleftrightarrow> same_char_ignoring_case c d"
proof -
  define n where "n = (of_char c :: nat)"
  define m where "m = (of_char d :: nat)"
  have m: "65 \<le> m" "m \<le> 90" using assms by (simp_all add: is_upper_letter_def m_def)
  have n: "n < 256" by (simp add: n_def of_char_less_256)
  have cd: "c = d \<longleftrightarrow> n = m" by (auto simp: n_def m_def)
  have spec: "same_char_ignoring_case c d \<longleftrightarrow> n = m \<or> n = m + 32"
    using m by (auto simp: same_char_ignoring_case_def is_upper_letter_def cd n_def [symmetric] m_def [symmetric])
  show ?thesis
  proof (cases "97 \<le> n \<and> n \<le> 122")
    case True
    have "upper_char c = d \<longleftrightarrow> char_of (n - 32) = d"
      using True by (simp add: upper_char_def n_def [symmetric])
    also have "\<dots> \<longleftrightarrow> (n - 32) mod 256 = m"
      by (simp add: char_of_eq_iff take_bit_eq_mod m_def)
    also have "\<dots> \<longleftrightarrow> n = m + 32"
      using True m by auto
    finally show ?thesis using spec True m by auto
  next
    case False
    then have "upper_char c = d \<longleftrightarrow> c = d"
      by (auto simp add: upper_char_def n_def [symmetric])
    with spec cd False m show ?thesis by auto
  qed
qed

lemma str_upper_eq_iff:
  "\<forall>d \<in> set t. is_upper_letter d \<Longrightarrow> str_upper s = t \<longleftrightarrow> equal_ignoring_case s t"
proof (induction s arbitrary: t)
  case Nil
  then show ?case by (auto simp: str_upper_def equal_ignoring_case_def)
next
  case (Cons c s)
  show ?case
  proof (cases t)
    case Nil
    then show ?thesis by (simp add: str_upper_def equal_ignoring_case_def)
  next
    case (Cons d t')
    with Cons.prems have d: "is_upper_letter d" and t': "\<forall>x \<in> set t'. is_upper_letter x" by auto
    from Cons.IH [OF t'] upper_char_eq_iff [OF d, of c] show ?thesis
      by (simp add: str_upper_def equal_ignoring_case_def Cons)
  qed
qed

lemma upper_POSITIVE: "str_upper L = ''POSITIVE'' \<longleftrightarrow> equal_ignoring_case L ''POSITIVE''"
  by (rule str_upper_eq_iff) (simp add: is_upper_letter_def)

section \<open>Rounding to the nearest float\<close>

text \<open>
  \<open>ilog2\<close> is the floor of the binary logarithm, so the unit in the last place that
  \<open>nearest_binary64\<close> uses is the one of the binade of \<open>q\<close> (or the subnormal one), and
  the result is a multiple of that unit at most half a unit away from \<open>q\<close>.
\<close>

lemma ilog2_bounds:
  assumes "0 < q"
  shows "2 powi ilog2 q \<le> q \<and> q < 2 powi (ilog2 q + 1)"
proof (cases "1 \<le> q")
  case True
  define n where "n = \<lfloor>q\<rfloor>"
  from True have n: "0 < n" by (simp add: n_def)
  from bitlen_bounds [OF n] have lo: "2 ^ nat (bitlen n - 1) \<le> n" and hi: "n < 2 ^ nat (bitlen n)"
    by simp_all
  from n have b: "1 \<le> bitlen n" by (simp add: bitlen_alt_def)
  have "(2::rat) powi (bitlen n - 1) = of_int (2 ^ nat (bitlen n - 1))"
    using b by (simp add: power_int_def)
  also have "\<dots> \<le> of_int n" using lo by (simp only: of_int_le_iff)
  also have "\<dots> \<le> q" by (simp add: n_def)
  finally have l: "2 powi (bitlen n - 1) \<le> q" .
  have "q < of_int (n + 1)" by (simp add: n_def) linarith
  also have "of_int (n + 1) \<le> (of_int (2 ^ nat (bitlen n)) :: rat)"
    using hi by (simp only: of_int_le_iff)
  also have "\<dots> = 2 powi bitlen n" using b by (simp add: power_int_def)
  finally have "q < 2 powi bitlen n" .
  with l True show ?thesis by (simp add: ilog2_def n_def)
next
  case False
  define m where "m = \<lceil>1 / q\<rceil> - 1"
  from False assms have "1 < 1 / q" by simp
  then have m: "0 < m" by (simp add: m_def)
  from bitlen_bounds [OF m] have lo: "2 ^ nat (bitlen m - 1) \<le> m" and hi: "m < 2 ^ nat (bitlen m)"
    by simp_all
  from m have b: "1 \<le> bitlen m" by (simp add: bitlen_alt_def)
  have "1 / q \<le> of_int (m + 1)" by (simp add: m_def)
  also have "of_int (m + 1) \<le> (of_int (2 ^ nat (bitlen m)) :: rat)"
    using hi by (simp only: of_int_le_iff)
  finally have "1 / q \<le> 2 ^ nat (bitlen m)" by simp
  with assms have "1 / 2 ^ nat (bitlen m) \<le> q" by (simp add: field_simps)
  moreover have "(2::rat) powi (- bitlen m) = 1 / 2 ^ nat (bitlen m)"
    using b by (simp add: power_int_def field_simps)
  ultimately have l: "2 powi (- bitlen m) \<le> q" by simp
  have "(of_int (2 ^ nat (bitlen m - 1)) :: rat) \<le> of_int m"
    using lo by (simp only: of_int_le_iff)
  also have "of_int m < 1 / q" by (simp add: m_def) linarith
  finally have "2 ^ nat (bitlen m - 1) < 1 / q" by simp
  with assms have "q < 1 / 2 ^ nat (bitlen m - 1)" by (simp add: field_simps)
  moreover have "(2::rat) powi (- bitlen m + 1) = 1 / 2 ^ nat (bitlen m - 1)"
  proof -
    have "- bitlen m + 1 = - (bitlen m - 1)" by simp
    moreover have "0 \<le> bitlen m - 1" using b by simp
    ultimately show ?thesis by (simp add: power_int_def field_simps)
  qed
  ultimately have "q < 2 powi (- bitlen m + 1)" by simp
  with l False show ?thesis by (simp add: ilog2_def m_def)
qed

lemma round_half_even_near: "\<bar>of_int (round_half_even x) - x\<bar> \<le> 1 / 2"
proof -
  have "of_int \<lfloor>x\<rfloor> \<le> x" "x < of_int \<lfloor>x\<rfloor> + 1" by linarith+
  then show ?thesis by (auto simp: round_half_even_def Let_def abs_le_iff)
qed

lemma nearest_binary64_near:
  "\<bar>nearest_binary64 q - q\<bar> \<le> 2 powi (max (ilog2 q - 52) (- 1074)) / 2"
proof -
  define u :: rat where "u = 2 powi (max (ilog2 q - 52) (- 1074))"
  have u: "0 < u" by (simp add: u_def)
  have "\<bar>of_int (round_half_even (q / u)) - q / u\<bar> \<le> 1 / 2"
    by (rule round_half_even_near)
  then have "\<bar>of_int (round_half_even (q / u)) - q / u\<bar> * u \<le> 1 / 2 * u"
    using u by (simp only: mult_le_cancel_right_pos)
  moreover have "\<bar>of_int (round_half_even (q / u)) - q / u\<bar> * u
      = \<bar>of_int (round_half_even (q / u)) * u - q\<bar>"
  proof -
    have "\<bar>of_int (round_half_even (q / u)) - q / u\<bar> * u
        = \<bar>(of_int (round_half_even (q / u)) - q / u) * u\<bar>"
      using u by (simp add: abs_mult)
    also have "(of_int (round_half_even (q / u)) - q / u) * u
        = of_int (round_half_even (q / u)) * u - q"
      using u by (simp add: left_diff_distrib)
    finally show ?thesis .
  qed
  ultimately show ?thesis
    by (simp add: nearest_binary64_def Let_def u_def [symmetric])
qed

section \<open>Rounding stays within bounds\<close>

lemma round_half_even_le: "x \<le> of_int n \<Longrightarrow> round_half_even x \<le> n"
proof -
  assume x: "x \<le> of_int n"
  then have f: "\<lfloor>x\<rfloor> \<le> n" by (simp add: floor_le_iff)
  show ?thesis
  proof (cases "\<lfloor>x\<rfloor> = n")
    case True
    with x have "x - of_int \<lfloor>x\<rfloor> \<le> 0" by simp
    then show ?thesis using True by (simp add: round_half_even_def Let_def)
  next
    case False
    with f have "\<lfloor>x\<rfloor> + 1 \<le> n" by simp
    then show ?thesis by (simp add: round_half_even_def Let_def)
  qed
qed

lemma round_half_even_nonneg: "0 \<le> x \<Longrightarrow> 0 \<le> round_half_even x"
  by (simp add: round_half_even_def Let_def)

lemma bitlen_100: "bitlen 100 = 7"
  by code_simp

lemma ilog2_le_6: "q \<le> 100 \<Longrightarrow> ilog2 q \<le> 6"
proof (cases "1 \<le> q")
  case True
  assume "q \<le> 100"
  then have "\<lfloor>q\<rfloor> \<le> 100" by (simp add: floor_le_iff)
  then have "nat \<lfloor>q\<rfloor> \<le> nat 100" by (rule nat_mono)
  then have "floorlog 2 (nat \<lfloor>q\<rfloor>) \<le> floorlog 2 (nat 100)" by (rule floorlog_mono)
  then have "bitlen \<lfloor>q\<rfloor> \<le> bitlen 100"
    by (simp only: bitlen_def of_nat_le_iff)
  with True show ?thesis by (simp add: ilog2_def bitlen_100)
next
  case False
  have "0 \<le> bitlen (\<lceil>1 / q\<rceil> - 1)" by (rule bitlen_nonneg)
  with False show ?thesis by (simp add: ilog2_def)
qed

lemma nearest_binary64_bounds:
  assumes "0 \<le> q" "q \<le> 100"
  shows "0 \<le> nearest_binary64 q \<and> nearest_binary64 q \<le> 100"
proof -
  define p where "p = max (ilog2 q - 52) (- 1074)"
  define k where "k = nat (- p)"
  have "p \<le> 0" using ilog2_le_6 [OF assms(2)] by (simp add: p_def)
  then have pk: "(2::rat) powi p = 1 / 2 ^ k"
    by (simp add: k_def power_int_def field_simps)
  have scaled: "q / 2 powi p = q * 2 ^ k" by (simp add: pk)
  have n: "nearest_binary64 q = of_int (round_half_even (q * 2 ^ k)) / 2 ^ k"
    by (simp add: nearest_binary64_def Let_def p_def [symmetric] scaled) (simp add: pk)
  have "q * 2 ^ k \<le> of_int (100 * 2 ^ k)" using assms(2) by simp
  then have "round_half_even (q * 2 ^ k) \<le> 100 * 2 ^ k" by (rule round_half_even_le)
  then have "(of_int (round_half_even (q * 2 ^ k)) :: rat) \<le> of_int (100 * 2 ^ k)"
    by (simp only: of_int_le_iff)
  then have up: "(of_int (round_half_even (q * 2 ^ k)) :: rat) / 2 ^ k \<le> 100"
    by (simp add: field_simps)
  have "0 \<le> round_half_even (q * 2 ^ k)"
    using assms(1) by (intro round_half_even_nonneg) simp
  then have "(0::rat) \<le> of_int (round_half_even (q * 2 ^ k)) / 2 ^ k" by simp
  with up n show ?thesis by simp
qed

lemma round_double_bounds:
  assumes "0 \<le> q" "q \<le> 100"
  shows "\<exists>r. round_double s q = Finite s r \<and> 0 \<le> r \<and> r \<le> 100"
proof (cases "q = 0")
  case True
  then show ?thesis by (simp add: round_double_def)
next
  case False
  have "(100::rat) < 2 ^ 1024" by simp
  with nearest_binary64_bounds [OF assms] have "\<not> 2 ^ 1024 \<le> nearest_binary64 q" by linarith
  with False nearest_binary64_bounds [OF assms] show ?thesis
    by (simp add: round_double_def Let_def)
qed

lemma float_round_bounds:
  assumes "0 \<le> m" "m \<le> 100"
  shows "\<exists>r. float_round (Finite s m) 2 = Finite s r \<and> 0 \<le> r \<and> r \<le> 100"
proof -
  have "m * 10 ^ 2 \<le> of_int 10000" using assms(2) by simp
  then have "round_half_even (m * 10 ^ 2) \<le> 10000" by (rule round_half_even_le)
  then have "(of_int (round_half_even (m * 10 ^ 2)) :: rat) \<le> of_int 10000"
    by (simp only: of_int_le_iff)
  then have up: "(of_int (round_half_even (m * 10 ^ 2)) :: rat) / 10 ^ 2 \<le> 100" by simp
  have "0 \<le> round_half_even (m * 10 ^ 2)"
    using assms(1) by (intro round_half_even_nonneg) simp
  then have lo: "(0::rat) \<le> of_int (round_half_even (m * 10 ^ 2)) / 10 ^ 2" by simp
  from round_double_bounds [OF lo up] show ?thesis by simp
qed

lemma round_double_finite:
  "q \<noteq> 0 \<Longrightarrow> nearest_binary64 q = r \<Longrightarrow> r < 2 ^ 1024 \<Longrightarrow> round_double s q = Finite s r"
  by (simp add: round_double_def Let_def)



section \<open>The two floats of the scenarios\<close>

lemma nearest_100: "nearest_binary64 100 = 100"
  by code_simp

lemma float_of_int_100: "float_of_int 100 = Inr (Finite False 100)"
proof -
  have "round_double False 100 = Finite False 100"
    by (rule round_double_finite [OF _ nearest_100]) simp_all
  then show ?thesis by (simp add: float_of_int_def)
qed



lemma round_half_even_numeral: "round_half_even (numeral k) = numeral k"
  by (simp add: round_half_even_def Let_def)

lemma nearest_87: "nearest_binary64 87 = 87"
  by code_simp


lemma float_round_87: "float_round (Finite s 87) 2 = Finite s 87"
proof -
  have "round_double s 87 = Finite s 87"
    by (rule round_double_finite [OF _ nearest_87]) simp_all
  then show ?thesis by (simp add: round_half_even_numeral)
qed


lemma nearest_087_100: "nearest_binary64 (7836263351624663 / 9007199254740992 * 100) = 87"
  by code_simp


lemma importance_087:
  "float_round (fmul (Finite False (7836263351624663 / 9007199254740992)) (Finite False 100)) 2
     = Finite False 87"
proof -
  have "round_double (False \<noteq> False) (7836263351624663 / 9007199254740992 * 100)
      = Finite (False \<noteq> False) 87"
    by (rule round_double_finite [OF _ nearest_087_100]) simp_all
  then have "fmul (Finite False (7836263351624663 / 9007199254740992)) (Finite False 100)
      = Finite False 87"
    by (simp only: fmul.simps simp_thms)
  then show ?thesis by (simp only: float_round_87)
qed


section \<open>The importance transform\<close>

lemma importance_of_float:
  assumes "d ''label'' = Some (PStr L)" and "d ''score'' = Some (PFloat c)"
  shows "importance_of (d # ds) =
     Inr (PStr L, PFloat (if equal_ignoring_case L ''POSITIVE''
                          then float_round (fmul c (Finite False 100)) 2
                          else float_round (fmul (fneg c) (Finite False 100)) 2))"
  using assms
  by (simp add: importance_of_def and_then_def index0_def getitem_def float_of_int_100
      upper_POSITIVE)

lemma not_POSITIVE: "\<not> equal_ignoring_case ''NEGATIVE'' ''POSITIVE''"
  by (simp add: upper_POSITIVE [symmetric] str_upper_def upper_char_def)

lemma is_POSITIVE: "equal_ignoring_case ''POSITIVE'' ''POSITIVE''"
  by (simp add: upper_POSITIVE [symmetric] str_upper_def upper_char_def)



section \<open>The gate on the extracted text\<close>

lemma extract_article_text_result:
  "fst (extract_article_text env url w) =
     Inr (case extractor env url of Inl e \<Rightarrow> None | Inr t \<Rightarrow> Some t)"
  by (simp add: extract_article_text_def Let_def split: sum.splits)

text \<open>
  C1: for every URL on which the extraction raises, or yields a text shorter than 100
  characters (the empty text among them), \<open>analyze_article\<close> returns the triple
  \<open>(None, None, None)\<close> as its value: no exception leaves it.
\<close>

theorem analyze_article_gate:
  assumes "(\<exists>e. extractor env url = Inl e) \<or> (\<exists>t. extractor env url = Inr t \<and> length t < 100)"
  shows "fst (analyze_article env url w) = Inr (None, None, None)"
  using assms
  by (auto simp add: analyze_article_def extract_article_text_def Let_def split: sum.splits)

theorem analyze_article_gate_witness:
  "extractor demo_env ''https://www.bbc.com/news/world-us-canada-66801985'' = Inr ''Too short.''
   \<and> length ''Too short.'' < 100
   \<and> fst (analyze_article demo_env ''https://www.bbc.com/news/world-us-canada-66801985'' start_world)
       = Inr (None, None, None)"
proof -
  have a: "extractor demo_env ''https://www.bbc.com/news/world-us-canada-66801985'' = Inr ''Too short.''"
    by (simp add: demo_env_def)
  have b: "length ''Too short.'' < 100" by simp
  from a b have "(\<exists>e. extractor demo_env ''https://www.bbc.com/news/world-us-canada-66801985'' = Inl e)
      \<or> (\<exists>t. extractor demo_env ''https://www.bbc.com/news/world-us-canada-66801985'' = Inr t \<and> length t < 100)"
    by blast
  from analyze_article_gate [OF this, of start_world] a b show ?thesis by blast
qed

section \<open>Truncation\<close>












section \<open>Determinism\<close>

text \<open>
  C8: provided the summarization pipeline, called without sampling, returns a result
  that does not depend on the state of the random generator, the values of
  \<open>generate_summary\<close> and of \<open>analyze_sentiment\<close> on a text are the same in any two worlds:
  what is on the screen, which calls were made before and where the generator stands
  make no difference, so a second call returns what the first returned.
\<close>

theorem deterministic_results:
  assumes "\<forall>g g' t mx mn. fst (summarizer env g t mx mn False) = fst (summarizer env g' t mx mn False)"
  shows "fst (generate_summary env text w) = fst (generate_summary env text w')
       \<and> fst (analyze_sentiment env text w) = fst (analyze_sentiment env text w')"
proof -
  define t where "t = (if 1024 < length (str_split text)
                       then str_join '' '' (take 1024 (str_split text)) else text)"
  have gs: "fst (generate_summary env text v) =
      Inr (case and_then (fst (summarizer env (rng v) t 130 30 False))
                  (\<lambda>summary_list. and_then (index0 summary_list) (\<lambda>d. getitem d ''summary_text'')) of
             Inr summary \<Rightarrow> summary | Inl e \<Rightarrow> ''Summary generation failed.'')" for v
    by (simp add: generate_summary_def Let_def t_def split: prod.splits sum.splits)
  from assms have "fst (summarizer env (rng w) t 130 30 False) = fst (summarizer env (rng w') t 130 30 False)"
    by blast
  then have "fst (generate_summary env text w) = fst (generate_summary env text w')"
    by (simp only: gs)
  moreover have "fst (analyze_sentiment env text w) = fst (analyze_sentiment env text w')"
    by (simp add: analyze_sentiment_def Let_def split: sum.splits)
  ultimately show ?thesis by (intro conjI)
qed

theorem deterministic_results_witness:
  "(\<forall>g g' t mx mn. fst (summarizer demo_env g t mx mn False) = fst (summarizer demo_env g' t mx mn False))
   \<and> fst (generate_summary demo_env (replicate 120 (CHR ''x'')) start_world)
       = fst (generate_summary demo_env (replicate 120 (CHR ''x'')) later_world)
   \<and> fst (analyze_sentiment demo_env (replicate 120 (CHR ''x'')) start_world)
       = fst (analyze_sentiment demo_env (replicate 120 (CHR ''x'')) later_world)"
proof -
  have h: "\<forall>g g' t mx mn. fst (summarizer demo_env g t mx mn False) = fst (summarizer demo_env g' t mx mn False)"
    by (simp add: demo_env_def)
  from deterministic_results [OF h, of "replicate 120 (CHR ''x'')" start_world later_world] h
  show ?thesis by (intro conjI) blast+
qed

section \<open>Range and sign of the importance score\<close>

lemma round_half_even_0: "round_half_even 0 = 0"
  by (simp add: round_half_even_def)

lemma float_importance:
  assumes "0 \<le> m" "m \<le> 1"
  shows "\<exists>r. float_round (fmul (Finite s m) (Finite False 100)) 2 = Finite s r
             \<and> 0 \<le> r \<and> r \<le> 100 \<and> (m = 0 \<longrightarrow> r = 0)"
proof (cases "m = 0")
  case True
  then show ?thesis by (simp add: round_double_def round_half_even_0)
next
  case False
  from assms have "0 \<le> m * 100" "m * 100 \<le> 100" by simp_all
  from round_double_bounds [OF this, of s]
  obtain r where r: "round_double s (m * 100) = Finite s r" "0 \<le> r" "r \<le> 100" by blast
  from float_round_bounds [OF r(2,3), of s]
  obtain r' where "float_round (Finite s r) 2 = Finite s r'" "0 \<le> r'" "r' \<le> 100" by blast
  with r False show ?thesis by simp
qed

lemma importance_of_contract:
  assumes "list_all sentiment_contract out"
  shows "(\<exists>e. importance_of out = Inl e)
       \<or> (\<exists>s r. importance_of out = Inr (PStr ''POSITIVE'', PFloat (Finite s r))
                 \<and> 0 \<le> r \<and> r \<le> 100 \<and> (s \<longrightarrow> r = 0))
       \<or> (\<exists>s r. importance_of out = Inr (PStr ''NEGATIVE'', PFloat (Finite s r))
                 \<and> 0 \<le> r \<and> r \<le> 100 \<and> (\<not> s \<longrightarrow> r = 0))"
proof (cases out)
  case Nil
  then show ?thesis by (simp add: importance_of_def and_then_def index0_def)
next
  case (Cons d ds)
  with assms have d: "sentiment_contract d" by simp
  show ?thesis
  proof (cases "d ''label''")
    case None
    then show ?thesis by (simp add: Cons importance_of_def and_then_def index0_def getitem_def)
  next
    case (Some l)
    note label = this
    show ?thesis
    proof (cases "d ''score''")
      case None
      then show ?thesis
        by (simp add: Cons label importance_of_def and_then_def index0_def getitem_def)
    next
      case (Some c)
      with d obtain s m where c: "c = PFloat (Finite s m)" and m: "0 \<le> m" "m \<le> 1" "s \<longrightarrow> m = 0"
        by (auto simp: sentiment_contract_def confidence_in_unit_def split: pyval.splits pyfloat.splits)
      from d label have "l = PStr ''POSITIVE'' \<or> l = PStr ''NEGATIVE''"
        by (simp add: sentiment_contract_def)
      then show ?thesis
      proof
        assume l: "l = PStr ''POSITIVE''"
        from float_importance [OF m(1,2), of s] obtain r
          where "float_round (fmul (Finite s m) (Finite False 100)) 2 = Finite s r"
            "0 \<le> r" "r \<le> 100" "m = 0 \<longrightarrow> r = 0" by blast
        with m(3) importance_of_float [of d "''POSITIVE''" "Finite s m" ds] label Some
        show ?thesis by (simp add: Cons l c is_POSITIVE)
      next
        assume l: "l = PStr ''NEGATIVE''"
        from float_importance [OF m(1,2), of "\<not> s"] obtain r
          where "float_round (fmul (Finite (\<not> s) m) (Finite False 100)) 2 = Finite (\<not> s) r"
            "0 \<le> r" "r \<le> 100" "m = 0 \<longrightarrow> r = 0" by blast
        with m(3) importance_of_float [of d "''NEGATIVE''" "Finite s m" ds] label Some
        show ?thesis by (auto simp add: Cons l c not_POSITIVE)
      qed
    qed
  qed
qed

lemma analyze_sentiment_contract:
  assumes "sentiment_model_contract env"
  shows "\<exists>label score v. fst (analyze_sentiment env text w) = Inr (PStr label, score)
           \<and> num_value score = Some v
           \<and> ((label = ''N/A'' \<and> v = 0)
              \<or> (label = ''POSITIVE'' \<and> 0 \<le> v \<and> v \<le> 100)
              \<or> (label = ''NEGATIVE'' \<and> - 100 \<le> v \<and> v \<le> 0))"
proof (cases "sentiment_analyzer env (take 512 text)")
  case (Inl e)
  then show ?thesis by (simp add: analyze_sentiment_def Let_def and_then_def)
next
  case (Inr out)
  with assms have "list_all sentiment_contract out"
    by (auto simp: sentiment_model_contract_def)
  from importance_of_contract [OF this] show ?thesis
  proof (elim disjE exE conjE)
    fix e assume "importance_of out = Inl e"
    with Inr show ?thesis by (simp add: analyze_sentiment_def Let_def and_then_def)
  next
    fix s r assume "importance_of out = Inr (PStr ''POSITIVE'', PFloat (Finite s r))"
      "0 \<le> r" "r \<le> 100" "s \<longrightarrow> r = 0"
    with Inr show ?thesis by (simp add: analyze_sentiment_def Let_def and_then_def)
  next
    fix s r assume "importance_of out = Inr (PStr ''NEGATIVE'', PFloat (Finite s r))"
      "0 \<le> r" "r \<le> 100" "\<not> s \<longrightarrow> r = 0"
    with Inr show ?thesis by (simp add: analyze_sentiment_def Let_def and_then_def)
  qed
qed

lemma demo_env_contract: "sentiment_model_contract demo_env"
  by (auto simp: sentiment_model_contract_def demo_env_def sentiment_contract_def
      confidence_in_unit_def split: if_splits)

lemma demo_sentiment_positive:
  "fst (analyze_sentiment demo_env ''xyz'' w) = Inr (PStr ''POSITIVE'', PFloat (Finite False 87))"
proof -
  define d where "d = [''label'' \<mapsto> PStr ''POSITIVE'',
          ''score'' \<mapsto> PFloat (Finite False (7836263351624663 / 9007199254740992))]"
  have l: "d ''label'' = Some (PStr ''POSITIVE'')"
    and sc: "d ''score'' = Some (PFloat (Finite False (7836263351624663 / 9007199254740992)))"
    by (simp_all add: d_def)
  have "importance_of [d] = Inr (PStr ''POSITIVE'', PFloat (Finite False 87))"
    by (simp only: importance_of_float [OF l sc] is_POSITIVE if_True importance_087)
  then have "importance_of [[''label'' \<mapsto> PStr ''POSITIVE'',
          ''score'' \<mapsto> PFloat (Finite False (7836263351624663 / 9007199254740992))]]
      = Inr (PStr ''POSITIVE'', PFloat (Finite False 87))"
    by (simp only: d_def)
  then show ?thesis
    by (simp add: analyze_sentiment_def Let_def and_then_def demo_env_def)
qed

text \<open>
  C4: if the sentiment model keeps its contract (labels POSITIVE and NEGATIVE only,
  confidence in the interval from 0 to 1), then for every input text \<open>analyze_sentiment\<close>
  returns a label and a score with a numeric value such that the label POSITIVE comes
  with a value \<open>\<ge> 0\<close>, the label NEGATIVE with a value \<open>\<le> 0\<close> and the label N/A with the
  value 0.
\<close>

theorem importance_sign:
  assumes "sentiment_model_contract env"
  shows "\<exists>label score v. fst (analyze_sentiment env text w) = Inr (label, score)
           \<and> num_value score = Some v
           \<and> (label = PStr ''POSITIVE'' \<longrightarrow> 0 \<le> v)
           \<and> (label = PStr ''NEGATIVE'' \<longrightarrow> v \<le> 0)
           \<and> (label = PStr ''N/A'' \<longrightarrow> v = 0)"
proof -
  from analyze_sentiment_contract [OF assms, of "text" w]
  obtain label score v where "fst (analyze_sentiment env text w) = Inr (PStr label, score)"
    "num_value score = Some v"
    "(label = ''N/A'' \<and> v = 0) \<or> (label = ''POSITIVE'' \<and> 0 \<le> v \<and> v \<le> 100)
       \<or> (label = ''NEGATIVE'' \<and> - 100 \<le> v \<and> v \<le> 0)"
    by blast
  then show ?thesis by auto
qed

theorem importance_sign_witness:
  "sentiment_model_contract demo_env
   \<and> (\<exists>score v. fst (analyze_sentiment demo_env ''xyz'' start_world) = Inr (PStr ''POSITIVE'', score)
         \<and> num_value score = Some v \<and> 0 \<le> v)"
proof -
  from importance_sign [OF demo_env_contract, of "''xyz''" start_world]
  obtain label score v where r: "fst (analyze_sentiment demo_env ''xyz'' start_world) = Inr (label, score)"
    and v: "num_value score = Some v" and p: "label = PStr ''POSITIVE'' \<longrightarrow> 0 \<le> v"
    by blast
  from r have "label = PStr ''POSITIVE''" by (simp add: demo_sentiment_positive)
  with r v p demo_env_contract show ?thesis by blast
qed

lemma generate_summary_returns: "\<exists>summary. fst (generate_summary env text w) = Inr summary"
  by (simp add: generate_summary_def Let_def split: prod.splits sum.splits)

text \<open>
  C3: if the extraction of a URL succeeds with a text of at least 100 characters and the
  sentiment model keeps its contract, \<open>analyze_article\<close> returns a summary that is not
  \<open>None\<close>, a label that is one of POSITIVE, NEGATIVE and N/A, and a score whose numeric
  value lies between -100 and 100.
\<close>

theorem analyze_article_valid:
  assumes "extractor env url = Inr t" and "100 \<le> length t" and "sentiment_model_contract env"
  shows "\<exists>summary label score v.
           fst (analyze_article env url w) = Inr (Some summary, Some (PStr label), Some score)
           \<and> label \<in> {''POSITIVE'', ''NEGATIVE'', ''N/A''}
           \<and> num_value score = Some v \<and> - 100 \<le> v \<and> v \<le> 100"
proof -
  define w1 where "w1 = record_call (Download url) w"
  have e: "extract_article_text env url w = (Inr (Some t), w1)"
    using assms(1) by (simp add: extract_article_text_def Let_def w1_def)
  obtain summary w2 where g: "generate_summary env t w1 = (Inr summary, w2)"
    using generate_summary_returns [of env t w1] by (cases "generate_summary env t w1") auto
  from analyze_sentiment_contract [OF assms(3), of t w2]
  obtain label score v w3 where a: "analyze_sentiment env t w2 = (Inr (PStr label, score), w3)"
    and v: "num_value score = Some v"
    and l: "(label = ''N/A'' \<and> v = 0) \<or> (label = ''POSITIVE'' \<and> 0 \<le> v \<and> v \<le> 100)
       \<or> (label = ''NEGATIVE'' \<and> - 100 \<le> v \<and> v \<le> 0)"
    by (cases "analyze_sentiment env t w2") auto
  from assms(2) have "\<not> (t = [] \<or> length t < 100)" by auto
  then have "fst (analyze_article env url w) = Inr (Some summary, Some (PStr label), Some score)"
    by (simp add: analyze_article_def e g a)
  with v l show ?thesis by auto
qed

theorem analyze_article_valid_witness:
  "extractor demo_env ''https://www.bbc.com/news/technology-66804779'' = Inr (replicate 120 (CHR ''x''))
   \<and> 100 \<le> length (replicate 120 (CHR ''x''))
   \<and> sentiment_model_contract demo_env
   \<and> (\<exists>summary label score v.
         fst (analyze_article demo_env ''https://www.bbc.com/news/technology-66804779'' start_world)
           = Inr (Some summary, Some (PStr label), Some score)
         \<and> label \<in> {''POSITIVE'', ''NEGATIVE'', ''N/A''}
         \<and> num_value score = Some v \<and> - 100 \<le> v \<and> v \<le> 100)"
proof -
  have a: "extractor demo_env ''https://www.bbc.com/news/technology-66804779'' = Inr (replicate 120 (CHR ''x''))"
    by (simp add: demo_env_def)
  have b: "100 \<le> length (replicate 120 (CHR ''x''))" by simp
  from analyze_article_valid [OF a b demo_env_contract, of start_world] a b demo_env_contract
  show ?thesis by (intro conjI)
qed

section \<open>The table of the batch mode\<close>

lemma tables_append: "tables (xs @ ys) = tables xs @ tables ys"
  by (induction xs rule: tables.induct) auto

lemma tables_show_event:
  "tables (ui (show_event ev w)) = tables (ui w) @ (case ev of StTable rows \<Rightarrow> [rows] | _ \<Rightarrow> [])"
  by (cases ev) (simp_all add: show_event_def tables_append)

lemma ui_record_call: "ui (record_call c w) = ui w"
  by (simp add: record_call_def)

lemma tables_extract_article_text:
  "tables (ui (snd (extract_article_text env url w))) = tables (ui w)"
  by (simp add: extract_article_text_def Let_def tables_show_event ui_record_call split: sum.splits)

lemma tables_generate_summary:
  "tables (ui (snd (generate_summary env t w))) = tables (ui w)"
  by (simp add: generate_summary_def Let_def tables_show_event ui_record_call
      split: prod.splits sum.splits)

lemma tables_analyze_sentiment:
  "tables (ui (snd (analyze_sentiment env t w))) = tables (ui w)"
  by (simp add: analyze_sentiment_def Let_def tables_show_event ui_record_call split: sum.splits)

lemma analyze_sentiment_returns: "\<exists>label score. fst (analyze_sentiment env t w) = Inr (label, score)"
  by (simp add: analyze_sentiment_def Let_def split: sum.splits)

lemma analyze_article_rejects:
  assumes "\<not> passes_gate env (title, url)"
  shows "\<exists>w'. analyze_article env url w = (Inr (None, None, None), w') \<and> tables (ui w') = tables (ui w)"
proof -
  obtain r w1 where e: "extract_article_text env url w = (r, w1)"
    by (cases "extract_article_text env url w")
  with tables_extract_article_text [of env url w] have t: "tables (ui w1) = tables (ui w)" by simp
  from e extract_article_text_result [of env url w]
  have r: "r = Inr (case extractor env url of Inl e \<Rightarrow> None | Inr t \<Rightarrow> Some t)" by simp
  from assms have "analyze_article env url w = (Inr (None, None, None), w1)"
    by (auto simp: analyze_article_def e r passes_gate_def split: sum.splits)
  with t show ?thesis by blast
qed

lemma analyze_article_accepts:
  assumes "passes_gate env (title, url)"
  shows "\<exists>t summary label score w' w1 w2.
           extractor env url = Inr t
           \<and> analyze_article env url w = (Inr (Some summary, Some label, Some score), w')
           \<and> tables (ui w') = tables (ui w)
           \<and> fst (generate_summary env t w1) = Inr summary
           \<and> fst (analyze_sentiment env t w2) = Inr (label, score)"
proof -
  from assms obtain t where x: "extractor env url = Inr t" and n: "100 \<le> length t"
    by (auto simp: passes_gate_def split: sum.splits)
  define w1 where "w1 = record_call (Download url) w"
  have e: "extract_article_text env url w = (Inr (Some t), w1)"
    using x by (simp add: extract_article_text_def Let_def w1_def)
  have t1: "tables (ui w1) = tables (ui w)" by (simp add: w1_def ui_record_call)
  obtain summary w2 where g: "generate_summary env t w1 = (Inr summary, w2)"
    using generate_summary_returns [of env t w1] by (cases "generate_summary env t w1") auto
  with tables_generate_summary [of env t w1] have t2: "tables (ui w2) = tables (ui w1)" by simp
  obtain label score w3 where a: "analyze_sentiment env t w2 = (Inr (label, score), w3)"
    using analyze_sentiment_returns [of env t w2] by (cases "analyze_sentiment env t w2") auto
  with tables_analyze_sentiment [of env t w2] have t3: "tables (ui w3) = tables (ui w2)" by simp
  from n have "\<not> (t = [] \<or> length t < 100)" by auto
  then have "analyze_article env url w = (Inr (Some summary, Some label, Some score), w3)"
    by (simp add: analyze_article_def e g a)
  moreover from g have "fst (generate_summary env t w1) = Inr summary" by simp
  moreover from a have "fst (analyze_sentiment env t w2) = Inr (label, score)" by simp
  ultimately show ?thesis using x t1 t2 t3 by force
qed

lemma preloaded_loop_rows:
  "\<exists>rows w'. preloaded_loop env articles results w = (Inr (results @ rows), w')
      \<and> tables (ui w') = tables (ui w)
      \<and> map (\<lambda>r. (Title r, URL r)) rows = filter (passes_gate env) articles
      \<and> (\<forall>r \<in> set rows. \<exists>t label score w1 w2.
            extractor env (URL r) = Inr t
            \<and> fst (generate_summary env t w1) = Inr (Summary r)
            \<and> Sentiment r = Some label \<and> Importance_Score r = Some score
            \<and> fst (analyze_sentiment env t w2) = Inr (label, score))"
proof (induction articles arbitrary: results w)
  case Nil
  then show ?case by simp
next
  case (Cons a articles)
  let ?ok = "\<lambda>r. \<exists>t label score w1 w2.
            extractor env (URL r) = Inr t
            \<and> fst (generate_summary env t w1) = Inr (Summary r)
            \<and> Sentiment r = Some label \<and> Importance_Score r = Some score
            \<and> fst (analyze_sentiment env t w2) = Inr (label, score)"
  obtain title url where a: "a = (title, url)" by (cases a)
  define w2 where "w2 = show_event (StWrite [Some (PStr (''[Read the article]('' @ url @ '')''))])
        (show_event (StSubheader title) w)"
  have t2: "tables (ui w2) = tables (ui w)" by (simp add: w2_def tables_show_event)
  show ?case
  proof (cases "passes_gate env (title, url)")
    case False
    from analyze_article_rejects [OF False, of w2]
    obtain w3 where r: "analyze_article env url w2 = (Inr (None, None, None), w3)"
      and t3: "tables (ui w3) = tables (ui w2)" by blast
    define w4 where "w4 = show_event
        (StError ''Failed to extract article text or article is too short for analysis.'') w3"
    have t4: "tables (ui w4) = tables (ui w)" by (simp add: w4_def tables_show_event t3 t2)
    have step: "preloaded_loop env (a # articles) results w = preloaded_loop env articles results w4"
      using r by (simp add: a Let_def w2_def w4_def)
    from Cons.IH [of results w4]
    obtain rows w' where l: "preloaded_loop env articles results w4 = (Inr (results @ rows), w')"
      and t': "tables (ui w') = tables (ui w4)"
      and k: "map (\<lambda>r. (Title r, URL r)) rows = filter (passes_gate env) articles"
      and f: "\<forall>r \<in> set rows. ?ok r"
      by blast
    have "preloaded_loop env (a # articles) results w = (Inr (results @ rows), w')"
      by (simp only: step l)
    moreover have "tables (ui w') = tables (ui w)" by (simp add: t' t4)
    moreover have "map (\<lambda>r. (Title r, URL r)) rows = filter (passes_gate env) (a # articles)"
      using False k by (simp add: a)
    ultimately show ?thesis using f by blast
  next
    case True
    from analyze_article_accepts [OF True, of w2]
    obtain t summary label score w3 v1 v2 where x: "extractor env url = Inr t"
      and r: "analyze_article env url w2 = (Inr (Some summary, Some label, Some score), w3)"
      and t3: "tables (ui w3) = tables (ui w2)"
      and g: "fst (generate_summary env t v1) = Inr summary"
      and s: "fst (analyze_sentiment env t v2) = Inr (label, score)"
      by blast
    define row where "row = \<lparr>Title = title, URL = url, Summary = summary,
        Sentiment = Some label, Importance_Score = Some score\<rparr>"
    define w7 where "w7 = show_event (StMarkdown ''---'')
        (show_event (StWrite [Some (PStr ''**Importance Score:**''), Some score])
          (show_event (StWrite [Some (PStr ''**Sentiment:**''), Some label])
            (show_event (StWrite [Some (PStr ''**Summary:**''), Some (PStr summary)]) w3)))"
    have t7: "tables (ui w7) = tables (ui w)" by (simp add: w7_def tables_show_event t3 t2)
    have step: "preloaded_loop env (a # articles) results w
        = preloaded_loop env articles (results @ [row]) w7"
      using r by (simp add: a Let_def w2_def w7_def row_def)
    from Cons.IH [of "results @ [row]" w7]
    obtain rows w' where l: "preloaded_loop env articles (results @ [row]) w7 = (Inr ((results @ [row]) @ rows), w')"
      and t': "tables (ui w') = tables (ui w7)"
      and k: "map (\<lambda>r. (Title r, URL r)) rows = filter (passes_gate env) articles"
      and f: "\<forall>r \<in> set rows. ?ok r"
      by blast
    have row: "?ok row"
      using x g s by (auto simp: row_def)
    have "preloaded_loop env (a # articles) results w = (Inr (results @ (row # rows)), w')"
      by (simp only: step l) simp
    moreover have "tables (ui w') = tables (ui w)" by (simp add: t' t7)
    moreover have "map (\<lambda>r. (Title r, URL r)) (row # rows) = filter (passes_gate env) (a # articles)"
      using True k by (simp add: a row_def)
    moreover have "\<forall>r \<in> set (row # rows). ?ok r"
      using row f by simp
    ultimately show ?thesis by blast
  qed
qed

text \<open>
  C9: the batch mode over a list of articles ends without an exception and shows one
  table more if some article passes the gate, none otherwise. The rows of that table are,
  in order, exactly the articles that pass the gate, one row each with the article's
  title and URL; a row holds the summary \<open>generate_summary\<close> returned and the label and
  score \<open>analyze_sentiment\<close> returned on the article's text, whatever they are, the
  degraded results of C6 and C7 included. \<open>preloaded_articles\<close> is one such list.
\<close>

theorem preloaded_table:
  "\<exists>rows w'. preloaded_mode env articles w = (Inr (), w')
     \<and> tables (ui w') = tables (ui w) @ (if filter (passes_gate env) articles = [] then [] else [rows])
     \<and> map (\<lambda>r. (Title r, URL r)) rows = filter (passes_gate env) articles
     \<and> (\<forall>r \<in> set rows. \<exists>t label score w1 w2.
            extractor env (URL r) = Inr t
            \<and> fst (generate_summary env t w1) = Inr (Summary r)
            \<and> Sentiment r = Some label \<and> Importance_Score r = Some score
            \<and> fst (analyze_sentiment env t w2) = Inr (label, score))"
proof -
  define w0 where "w0 = show_event (StHeader ''Preloaded BBC Articles Analysis'') w"
  have t0: "tables (ui w0) = tables (ui w)" by (simp add: w0_def tables_show_event)
  from preloaded_loop_rows [of env articles "[]" w0]
  obtain rows w1 where l: "preloaded_loop env articles [] w0 = (Inr rows, w1)"
    and t1: "tables (ui w1) = tables (ui w0)"
    and k: "map (\<lambda>r. (Title r, URL r)) rows = filter (passes_gate env) articles"
    and f: "\<forall>r \<in> set rows. \<exists>t label score w1 w2.
            extractor env (URL r) = Inr t
            \<and> fst (generate_summary env t w1) = Inr (Summary r)
            \<and> Sentiment r = Some label \<and> Importance_Score r = Some score
            \<and> fst (analyze_sentiment env t w2) = Inr (label, score)"
    by auto
  from k have e: "rows = [] \<longleftrightarrow> filter (passes_gate env) articles = []" by auto
  define w' where "w' = (if rows \<noteq> []
      then show_event (StTable rows) (show_event (StSubheader ''Tabulated Results'') w1) else w1)"
  have "preloaded_mode env articles w = (Inr (), w')"
    by (simp add: preloaded_mode_def w0_def [symmetric] l w'_def)
  moreover have "tables (ui w') = tables (ui w)
      @ (if filter (passes_gate env) articles = [] then [] else [rows])"
    using e by (simp add: w'_def tables_show_event t1 t0)
  ultimately show ?thesis using k f by blast
qed

theorem preloaded_table_witness:
  "filter (passes_gate demo_env) preloaded_articles
     = [(''BBC Article 2'', ''https://www.bbc.com/news/technology-66804779'')]
   \<and> map (map (\<lambda>r. (Title r, URL r)))
        (tables (ui (snd (preloaded_mode demo_env preloaded_articles start_world))))
     = [[(''BBC Article 2'', ''https://www.bbc.com/news/technology-66804779'')]]"
proof -
  have p: "filter (passes_gate demo_env) preloaded_articles
     = [(''BBC Article 2'', ''https://www.bbc.com/news/technology-66804779'')]"
    by (simp add: passes_gate_def demo_env_def preloaded_articles_def)
  from preloaded_table [of demo_env preloaded_articles start_world]
  obtain rows w' where m: "preloaded_mode demo_env preloaded_articles start_world = (Inr (), w')"
    and t: "tables (ui w') = tables (ui start_world)
        @ (if filter (passes_gate demo_env) preloaded_articles = [] then [] else [rows])"
    and k: "map (\<lambda>r. (Title r, URL r)) rows = filter (passes_gate demo_env) preloaded_articles"
    by blast
  from t p have "tables (ui w') = [rows]" by (simp add: start_world_def)
  with m k p show ?thesis by simp
qed

end
